theory Spec2Isabelle
  imports Main "HOL-Library.Word" "HOL-Library.Log_Nat"
begin

unbundle bit_operations_syntax

section \<open>JavaScript numbers\<close>

text \<open>
  A JavaScript number is an IEEE 754 binary64 value.  The finite ones are kept by
  their exact rational value; every arithmetic operation computes the exact result and
  rounds it to the nearest binary64 value, ties to even, as the hardware does.
  The sign of zero is not kept: in \<open>getVideoAspectRatio\<close> it could only change the
  sign of an infinite quotient, and \<open>Math.abs\<close> removes that sign again.
\<close>

datatype jsnum = NaN | PInf | NInf | Fin rat

definition pow2 :: "int \<Rightarrow> rat" where
  "pow2 e = (if 0 \<le> e then 2 ^ nat e else 1 / 2 ^ nat (- e))"

text \<open>The binary exponent of a positive rational: \<open>pow2 (ilog2 x) \<le> x < pow2 (ilog2 x + 1)\<close>.\<close>

definition ilog2 :: "rat \<Rightarrow> int" where
  "ilog2 x = (if 1 \<le> x then bitlen \<lfloor>x\<rfloor> - 1 else - bitlen (\<lceil>1 / x\<rceil> - 1))"

definition round_half_even :: "rat \<Rightarrow> int" where
  "round_half_even x =
     (let f = \<lfloor>x\<rfloor>; d = x - of_int f
      in if d < 1 / 2 then f
         else if 1 / 2 < d then f + 1
         else if even f then f else f + 1)"

text \<open>
  Rounding of a positive rational to binary64: 53 significant bits, the unit in the last
  place never below \<open>2\<^sup>-\<^sup>1\<^sup>0\<^sup>7\<^sup>4\<close> (subnormal numbers), overflow to infinity
  from \<open>2\<^sup>1\<^sup>0\<^sup>2\<^sup>4\<close> on.
\<close>

definition round_pos :: "rat \<Rightarrow> jsnum" where
  "round_pos x =
     (let E = max (ilog2 x) (- 1022) - 52;
          v = of_int (round_half_even (x / pow2 E)) * pow2 E
      in if pow2 1024 \<le> v then PInf else Fin v)"

fun js_neg :: "jsnum \<Rightarrow> jsnum" where
  "js_neg NaN = NaN"
| "js_neg PInf = NInf"
| "js_neg NInf = PInf"
| "js_neg (Fin x) = Fin (- x)"

definition fl :: "rat \<Rightarrow> jsnum" where
  "fl x = (if x = 0 then Fin 0 else if 0 < x then round_pos x else js_neg (round_pos (- x)))"

text \<open>The operators \<open>/\<close>, \<open>-\<close>, \<open><\<close> and \<open>Math.abs\<close> on numbers.\<close>

fun js_div :: "jsnum \<Rightarrow> jsnum \<Rightarrow> jsnum" where
  "js_div NaN _ = NaN"
| "js_div _ NaN = NaN"
| "js_div (Fin x) (Fin y) =
     (if y = 0 then (if x = 0 then NaN else if 0 < x then PInf else NInf) else fl (x / y))"
| "js_div (Fin x) _ = Fin 0"
| "js_div PInf (Fin y) = (if y < 0 then NInf else PInf)"
| "js_div NInf (Fin y) = (if y < 0 then PInf else NInf)"
| "js_div _ _ = NaN"

fun js_sub :: "jsnum \<Rightarrow> jsnum \<Rightarrow> jsnum" where
  "js_sub NaN _ = NaN"
| "js_sub _ NaN = NaN"
| "js_sub (Fin x) (Fin y) = fl (x - y)"
| "js_sub (Fin x) PInf = NInf"
| "js_sub (Fin x) NInf = PInf"
| "js_sub PInf PInf = NaN"
| "js_sub PInf _ = PInf"
| "js_sub NInf NInf = NaN"
| "js_sub NInf _ = NInf"

fun Math_abs :: "jsnum \<Rightarrow> jsnum" where
  "Math_abs NaN = NaN"
| "Math_abs PInf = PInf"
| "Math_abs NInf = PInf"
| "Math_abs (Fin x) = Fin \<bar>x\<bar>"

fun js_lt :: "jsnum \<Rightarrow> jsnum \<Rightarrow> bool" where
  "js_lt NaN _ = False"
| "js_lt _ NaN = False"
| "js_lt (Fin x) (Fin y) = (x < y)"
| "js_lt (Fin x) PInf = True"
| "js_lt NInf (Fin y) = True"
| "js_lt NInf PInf = True"
| "js_lt _ _ = False"


section \<open>Values read from the probe's JSON\<close>

text \<open>
  What \<open>JSON.parse\<close> can return, and \<open>undefined\<close>, which property access adds.
  A number carries the exact value of its literal; \<open>ToNumber\<close> below rounds it to
  binary64.  An object is the list of its own properties.
\<close>

datatype jsval =
    JUndefined
  | JNull
  | JBool bool
  | JNum rat
  | JStr string
  | JArr "jsval list"
  | JObj "(string \<times> jsval) list"

datatype error =
    BadRequestError string
  | NotFoundError string
  | UserForbiddenError string
  | Error string
  | SyntaxError
  | TypeError
  | SystemError string

text \<open>
  Property access \<open>v[k]\<close> and \<open>v.k\<close>, for the names \<open>getVideoAspectRatio\<close> reads
  (\<open>streams\<close>, \<open>0\<close>, \<open>width\<close>, \<open>height\<close>): reading a property of \<open>undefined\<close> or
  \<open>null\<close> throws a TypeError, a missing property is \<open>undefined\<close>, index \<open>0\<close> of an
  array or string is its first element.
\<close>

fun js_get :: "jsval \<Rightarrow> string \<Rightarrow> error + jsval" where
  "js_get JUndefined k = Inl TypeError"
| "js_get JNull k = Inl TypeError"
| "js_get (JObj kvs) k = Inr (case map_of kvs k of None \<Rightarrow> JUndefined | Some v \<Rightarrow> v)"
| "js_get (JArr xs) k =
     Inr (if k = ''0'' then (case xs of [] \<Rightarrow> JUndefined | x # _ \<Rightarrow> x) else JUndefined)"
| "js_get (JStr s) k =
     Inr (if k = ''0'' then (case s of [] \<Rightarrow> JUndefined | c # _ \<Rightarrow> JStr [c]) else JUndefined)"
| "js_get (JNum q) k = Inr JUndefined"
| "js_get (JBool b) k = Inr JUndefined"

section \<open>Data model\<close>

type_synonym bytes = "8 word list"

text \<open>A row of the metadata store (type \<open>Video\<close> of \<open>db/videos\<close>).\<close>

record Video =
  id_Video :: string
  userID :: string
  videoURL :: "string option"
  thumbnailURL :: "string option"

text \<open>A \<open>File\<close> part of a multipart form: its \<open>size\<close>, its \<open>type\<close> and its bytes.\<close>

record File =
  size_File :: nat
  type_File :: string
  arrayBuffer :: bytes

datatype FormDataEntryValue = FormString string | FormFile File

record BunRequest =
  params_videoId :: "string option"
  headers :: "(string \<times> string) list"
  formData :: "error + (string \<rightharpoonup> FormDataEntryValue)"

record ApiConfig =
  assetsRoot :: string
  jwtSecret :: string
  port :: nat

record Subprocess =
  exited :: int
  stdout :: string
  stderr :: string

text \<open>
  What the handler takes from its runtime and from modules outside these sources, as
  parameters: the two functions of \<open>auth\<close>, the random source, \<open>path.join\<close>, the two
  external programs, \<open>JSON.parse\<close> (\<open>None\<close> for a SyntaxError), \<open>ToNumber\<close> on
  strings and on objects (\<open>None\<close> for a TypeError), and the object store's \<open>presign\<close>.
  The programs are taken by their command lines: \<open>ffprobe\<close> only reads the file system;
  \<open>ffmpeg\<close> writes at most its output path, the last argument, and the second component
  of its result is what it wrote there, if anything.
\<close>

record runtime =
  getBearerToken :: "(string \<times> string) list \<Rightarrow> error + string"
  validateJWT :: "string \<Rightarrow> string \<Rightarrow> error + string"
  randomSource :: "nat \<Rightarrow> 8 word"
  path_join :: "string \<Rightarrow> string \<Rightarrow> string"
  ffprobe :: "string list \<Rightarrow> (string \<rightharpoonup> bytes) \<Rightarrow> Subprocess"
  ffmpeg :: "string list \<Rightarrow> (string \<rightharpoonup> bytes) \<Rightarrow> Subprocess \<times> bytes option"
  JSON_parse :: "string \<Rightarrow> jsval option"
  StringToNumber :: "string \<Rightarrow> jsnum"
  ObjectToNumber :: "jsval \<Rightarrow> jsnum option"
  presign :: "string \<Rightarrow> nat \<Rightarrow> string"

text \<open>
  The state the handler works on: the metadata store behind \<open>cfg.db\<close>, the local file
  system, and the bucket behind \<open>cfg.s3Client\<close>.
\<close>

record world =
  db :: "Video list"
  files :: "string \<rightharpoonup> bytes"
  s3 :: "string \<rightharpoonup> bytes"

record Response =
  status :: nat
  body :: Video

text \<open>
  Modelled from the spec: \<open>getVideo\<close> and \<open>updateVideo\<close> of \<open>db/videos\<close> are not among
  the sources.  The spec gives the metadata store as \<open>get(id) -> Record | absent\<close> and
  \<open>update(record) -> void\<close>: a lookup by identifier, and the replacement of the row
  that has the record's identifier.
\<close>

definition getVideo :: "Video list \<Rightarrow> string \<Rightarrow> Video option" where
  "getVideo d videoId = find (\<lambda>v. id_Video v = videoId) d"

definition updateVideo :: "Video list \<Rightarrow> Video \<Rightarrow> Video list" where
  "updateVideo d video = map (\<lambda>r. if id_Video r = id_Video video then video else r) d"

text \<open>
  Modelled from the spec: \<open>respondWithJSON\<close> of \<open>json\<close> is not among the sources.  The
  spec gives the response as a status and a JSON body mirroring the record's fields.
\<close>

definition respondWithJSON :: "nat \<Rightarrow> Video \<Rightarrow> Response" where
  "respondWithJSON code payload = \<lparr>status = code, body = payload\<rparr>"

section \<open>Library functions the handler calls\<close>

text \<open>\<open>randomBytes(n)\<close>: the next \<open>n\<close> bytes of the random source.\<close>

definition randomBytes :: "runtime \<Rightarrow> nat \<Rightarrow> bytes" where
  "randomBytes rt n = map (randomSource rt) [0..<n]"

text \<open>
  \<open>Buffer.toString("base64url")\<close>: base64 with the URL-safe alphabet of RFC 4648 and no
  padding.  Each group of three bytes gives four characters; a last group of one or two
  bytes gives two or three.
\<close>

definition base64url_alphabet :: string where
  "base64url_alphabet = ''ABCDEFGHIJKLMNOPQRSTUVWXYZabcdefghijklmnopqrstuvwxyz0123456789-_''"

definition b64 :: "nat \<Rightarrow> char" where
  "b64 i = base64url_alphabet ! (i mod 64)"

fun base64url :: "bytes \<Rightarrow> string" where
  "base64url [] = []"
| "base64url [a] = [b64 (unat a div 4), b64 (unat a mod 4 * 16)]"
| "base64url [a, b] =
     [b64 (unat a div 4), b64 (unat a mod 4 * 16 + unat b div 16), b64 (unat b mod 16 * 4)]"
| "base64url (a # b # c # rest) =
     [b64 (unat a div 4), b64 (unat a mod 4 * 16 + unat b div 16),
      b64 (unat b mod 16 * 4 + unat c div 64), b64 (unat c mod 64)] @ base64url rest"

text \<open>\<open>s.split(c)\<close> for a one-character separator, and \<open>.at(-1)\<close>.\<close>

fun split_on :: "char \<Rightarrow> string \<Rightarrow> string list" where
  "split_on c [] = [[]]"
| "split_on c (x # xs) =
     (if x = c then [] # split_on c xs
      else (case split_on c xs of [] \<Rightarrow> [[x]] | y # ys \<Rightarrow> (x # y) # ys))"

definition at_last :: "string list \<Rightarrow> string option" where
  "at_last xs = (if xs = [] then None else Some (last xs))"

text \<open>A value of type \<open>string | undefined\<close> inside a template literal.\<close>

definition template :: "string option \<Rightarrow> string" where
  "template v = (case v of None \<Rightarrow> ''undefined'' | Some s \<Rightarrow> s)"

text \<open>\<open>ToNumber\<close>, applied by \<open>/\<close> to its operands.\<close>

fun ToNumber :: "runtime \<Rightarrow> jsval \<Rightarrow> error + jsnum" where
  "ToNumber rt JUndefined = Inr NaN"
| "ToNumber rt JNull = Inr (Fin 0)"
| "ToNumber rt (JBool b) = Inr (Fin (if b then 1 else 0))"
| "ToNumber rt (JNum q) = Inr (fl q)"
| "ToNumber rt (JStr s) = Inr (StringToNumber rt s)"
| "ToNumber rt (JArr xs) =
     (case ObjectToNumber rt (JArr xs) of None \<Rightarrow> Inl TypeError | Some n \<Rightarrow> Inr n)"
| "ToNumber rt (JObj kvs) =
     (case ObjectToNumber rt (JObj kvs) of None \<Rightarrow> Inl TypeError | Some n \<Rightarrow> Inr n)"

section \<open>The video upload handler\<close>

definition generatePresignedURL :: "runtime \<Rightarrow> string \<Rightarrow> nat option \<Rightarrow> string" where
  "generatePresignedURL rt key expireTime =
     presign rt key (case expireTime of None \<Rightarrow> 3600 | Some t \<Rightarrow> t)"

text \<open>\<open>!video.videoURL\<close> holds for \<open>undefined\<close> and for the empty string.\<close>

definition dbVideoToSignedVideo :: "runtime \<Rightarrow> Video \<Rightarrow> Video" where
  "dbVideoToSignedVideo rt video =
     (case videoURL video of
        None \<Rightarrow> video
      | Some u \<Rightarrow>
          if u = [] then video
          else video\<lparr>videoURL := Some (generatePresignedURL rt u None)\<rparr>)"

definition ffprobe_cmd :: "string \<Rightarrow> string list" where
  "ffprobe_cmd filePath =
     [''ffprobe'', ''-v'', ''error'', ''-select_streams'', ''v:0'', ''-show_entries'',
      ''stream=width,height'', ''-of'', ''json'', filePath]"

definition getVideoAspectRatio :: "runtime \<Rightarrow> (string \<rightharpoonup> bytes) \<Rightarrow> string \<Rightarrow> error + string" where
  "getVideoAspectRatio rt fs filePath =
     (let subprocess = ffprobe rt (ffprobe_cmd filePath) fs;
          text = stdout subprocess
      in if exited subprocess \<noteq> 0
         then Inl (Error (''Failed to read dimensions of '' @ filePath @ '': '' @ [CHR 0x0A]
                          @ stderr subprocess))
         else
          (case JSON_parse rt text of
             None \<Rightarrow> Inl SyntaxError
           | Some parsed \<Rightarrow>
          (case js_get parsed ''streams'' of
             Inl e \<Rightarrow> Inl e
           | Inr streams \<Rightarrow>
          (case js_get streams ''0'' of
             Inl e \<Rightarrow> Inl e
           | Inr obj \<Rightarrow>
          (case js_get obj ''width'' of
             Inl e \<Rightarrow> Inl e
           | Inr width \<Rightarrow>
          (case js_get obj ''height'' of
             Inl e \<Rightarrow> Inl e
           | Inr height \<Rightarrow>
          (case ToNumber rt width of
             Inl e \<Rightarrow> Inl e
           | Inr wn \<Rightarrow>
          (case ToNumber rt height of
             Inl e \<Rightarrow> Inl e
           | Inr hn \<Rightarrow>
             (let aspectRatio = js_div wn hn
              in if js_lt (Math_abs (js_sub aspectRatio (js_div (Fin 16) (Fin 9)))) (fl (1 / 100))
                 then Inr ''landscape''
                 else if js_lt (Math_abs (js_sub aspectRatio (js_div (Fin 9) (Fin 16))))
                           (fl (1 / 100))
                 then Inr ''portrait''
                 else Inr ''other'')))))))))"

definition ffmpeg_cmd :: "string \<Rightarrow> string \<Rightarrow> string list" where
  "ffmpeg_cmd filePath outputFilePath =
     [''ffmpeg'', ''-i'', filePath, ''-movflags'', ''faststart'', ''-map_metadata'', ''0'',
      ''-codec'', ''copy'', ''-f'', ''mp4'', outputFilePath]"

text \<open>Returns the result and the file system as the process left it.\<close>

definition processVideoForFastStart ::
  "runtime \<Rightarrow> (string \<rightharpoonup> bytes) \<Rightarrow> string \<Rightarrow> (error + string) \<times> (string \<rightharpoonup> bytes)" where
  "processVideoForFastStart rt fs filePath =
     (let outputFilePath = filePath @ ''.processed'';
          (subprocess, written) = ffmpeg rt (ffmpeg_cmd filePath outputFilePath) fs;
          fs' = (case written of None \<Rightarrow> fs | Some out \<Rightarrow> fs(outputFilePath \<mapsto> out))
      in if exited subprocess \<noteq> 0
         then (Inl (Error (''Failed to process video for fast start '' @ filePath @ '': ''
                           @ [CHR 0x0A] @ stderr subprocess)), fs')
         else (Inr outputFilePath, fs'))"

text \<open>\<open>1 << 30\<close>: a shift of 32-bit integers.\<close>

definition MAX_UPLOAD_SIZE :: int where
  "MAX_UPLOAD_SIZE = sint (push_bit 30 (1 :: 32 word))"

text \<open>
  The handler returns its result, an error for each \<open>throw\<close>, and the state it leaves.
  Writing a local file that does not exist to the bucket fails with a system error.
\<close>

definition handlerUploadVideo ::
  "runtime \<Rightarrow> ApiConfig \<Rightarrow> BunRequest \<Rightarrow> world \<Rightarrow> (error + Response) \<times> world" where
  "handlerUploadVideo rt cfg req w =
     (case params_videoId req of
        None \<Rightarrow> (Inl (BadRequestError ''Invalid video ID''), w)
      | Some videoId \<Rightarrow>
     (if videoId = [] then (Inl (BadRequestError ''Invalid video ID''), w)
      else
     (case getBearerToken rt (headers req) of
        Inl e \<Rightarrow> (Inl e, w)
      | Inr token \<Rightarrow>
     (case validateJWT rt token (jwtSecret cfg) of
        Inl e \<Rightarrow> (Inl e, w)
      | Inr uid \<Rightarrow>
     (case formData req of
        Inl e \<Rightarrow> (Inl e, w)
      | Inr form \<Rightarrow>
     (case form ''video'' of
        None \<Rightarrow> (Inl (BadRequestError ''Video is not a file''), w)
      | Some (FormString s) \<Rightarrow> (Inl (BadRequestError ''Video is not a file''), w)
      | Some (FormFile videoData) \<Rightarrow>
     (if int (size_File videoData) > MAX_UPLOAD_SIZE
      then (Inl (BadRequestError ''Video is larger than 1GB''), w)
      else
     (case getVideo (db w) videoId of
        None \<Rightarrow> (Inl (NotFoundError ''Video not found''), w)
      | Some video \<Rightarrow>
     (if userID video \<noteq> uid then (Inl (UserForbiddenError ''Wrong user''), w)
      else
     (if type_File videoData \<noteq> ''video/mp4''
      then (Inl (BadRequestError ''Unsupported video format''), w)
      else
     (let extension = at_last (split_on CHR ''/'' (type_File videoData));
          data = arrayBuffer videoData;
          fileName = base64url (randomBytes rt 32) @ ''.'' @ template extension;
          targetPath = path_join rt (assetsRoot cfg) fileName;
          w1 = w\<lparr>files := (files w)(targetPath \<mapsto> data)\<rparr>
      in
     (case getVideoAspectRatio rt (files w1) targetPath of
        Inl e \<Rightarrow> (Inl e, w1)
      | Inr prefix \<Rightarrow>
     (case processVideoForFastStart rt (files w1) targetPath of
        (Inl e, fs2) \<Rightarrow> (Inl e, w1\<lparr>files := fs2\<rparr>)
      | (Inr processedFilePath, fs2) \<Rightarrow>
     (let fs3 = fs2(targetPath := None);
          key = prefix @ ''/'' @ fileName
      in
     (case fs3 processedFilePath of
        None \<Rightarrow> (Inl (SystemError ''ENOENT''), w1\<lparr>files := fs3\<rparr>)
      | Some localFile \<Rightarrow>
     (let s3' = (s3 w1)(key \<mapsto> localFile);
          fs4 = fs3(processedFilePath := None);
          video' = video\<lparr>videoURL := Some key\<rparr>;
          db' = updateVideo (db w1) video';
          signedVideo = dbVideoToSignedVideo rt video'
      in (Inr (respondWithJSON 200 signedVideo),
          \<lparr>db = db', files = fs4, s3 = s3'\<rparr>)))))))))))))))))"

section \<open>The invariant of the stored locations\<close>


section \<open>An example deployment\<close>

text \<open>
  A concrete runtime, configuration, store and request, on which the theorems below are
  exercised.  The probe reports a 1920 by 1080 stream; the remux writes three bytes.
\<close>

definition probe_text :: string where
  \<open>probe_text = ''{"streams":[{"width":1920,"height":1080}]}''\<close>

definition rt_ex :: runtime where
  "rt_ex =
     \<lparr>getBearerToken =
        (\<lambda>hs. case map_of hs ''Authorization'' of
                None \<Rightarrow> Inl (BadRequestError ''Malformed authorization header'')
              | Some t \<Rightarrow> Inr (drop 7 t)),
      validateJWT =
        (\<lambda>token secret.
           if token = ''token-alice'' then Inr ''alice''
           else if token = ''token-bob'' then Inr ''bob''
           else Inl (Error ''Invalid token'')),
      randomSource = (\<lambda>i. of_nat (7 * i + 3)),
      path_join = (\<lambda>a b. a @ ''/'' @ b),
      ffprobe = (\<lambda>cmd fs. \<lparr>exited = 0, stdout = probe_text, stderr = []\<rparr>),
      ffmpeg = (\<lambda>cmd fs. (\<lparr>exited = 0, stdout = [], stderr = []\<rparr>, Some [9, 8, 7])),
      JSON_parse =
        (\<lambda>t. if t = probe_text
             then Some (JObj [(''streams'',
                               JArr [JObj [(''width'', JNum 1920), (''height'', JNum 1080)]])])
             else None),
      StringToNumber = (\<lambda>s. NaN),
      ObjectToNumber = (\<lambda>v. Some NaN),
      presign = (\<lambda>key t. ''https://bucket.example/'' @ key @ ''?X-Amz-Signature=0a1b'')\<rparr>"

text \<open>The same runtime with a probe that prints \<open>text\<close>, which parses to \<open>v\<close>.\<close>

definition rt_report :: "string \<Rightarrow> jsval \<Rightarrow> runtime" where
  "rt_report text v =
     rt_ex\<lparr>ffprobe := (\<lambda>cmd fs. \<lparr>exited = 0, stdout = text, stderr = []\<rparr>),
           JSON_parse := (\<lambda>t. if t = text then Some v else None)\<rparr>"

text \<open>The same runtime with a remux that fails and writes nothing.\<close>

definition rt_remux_fails :: runtime where
  "rt_remux_fails =
     rt_ex\<lparr>ffmpeg := (\<lambda>cmd fs. (\<lparr>exited = 1, stdout = [], stderr = ''moov atom not found''\<rparr>,
                                None))\<rparr>"



definition cfg_ex :: ApiConfig where
  "cfg_ex = \<lparr>assetsRoot = ''/tmp/assets'', jwtSecret = ''secret'', port = 8091\<rparr>"

definition video_ex :: Video where
  "video_ex = \<lparr>id_Video = ''v1'', userID = ''alice'', videoURL = None, thumbnailURL = None\<rparr>"

definition world_ex :: world where
  "world_ex = \<lparr>db = [video_ex], files = Map.empty, s3 = Map.empty\<rparr>"

definition file_ex :: File where
  "file_ex = \<lparr>size_File = 3, type_File = ''video/mp4'', arrayBuffer = [1, 2, 3]\<rparr>"

definition req_ex :: BunRequest where
  "req_ex =
     \<lparr>params_videoId = Some ''v1'',
      headers = [(''Authorization'', ''Bearer token-alice'')],
      formData = Inr [''video'' \<mapsto> FormFile file_ex]\<rparr>"

section \<open>Rounding to binary64\<close>

text \<open>
  The exponent and the rounding are characterised, so that a concrete quotient is
  evaluated by checking inequalities, and an arbitrary one is known up to half a unit in
  the last place.
\<close>

lemma pow2_powi: "pow2 e = 2 powi e"
  by (simp add: pow2_def power_int_def field_simps)

lemma pow2_pos [simp]: "0 < pow2 e"
  by (simp add: pow2_powi)

lemma pow2_nonzero [simp]: "pow2 e \<noteq> 0"
  by (simp add: pow2_powi)

lemma pow2_add: "pow2 (a + b) = pow2 a * pow2 b"
  by (simp add: pow2_powi power_int_add)

lemma pow2_mono: "a \<le> b \<Longrightarrow> pow2 a \<le> pow2 b"
  by (simp add: pow2_powi power_int_increasing)

lemma pow2_strict_mono: "a < b \<Longrightarrow> pow2 a < pow2 b"
  by (simp add: pow2_powi power_int_strict_increasing)

lemma pow2_nat: "pow2 (int n) = 2 ^ n"
  by (simp add: pow2_def)

lemma pow2_neg: "pow2 (- int n) = 1 / 2 ^ n"
  by (simp add: pow2_powi power_int_minus field_simps)

lemma ilog2_bounds:
  assumes "0 < x"
  shows "pow2 (ilog2 x) \<le> x" and "x < pow2 (ilog2 x + 1)"
proof -
  show "pow2 (ilog2 x) \<le> x"
  proof (cases "1 \<le> x")
    case True
    then have pos: "0 < \<lfloor>x\<rfloor>" by linarith
    from bitlen_bounds [OF pos] have "2 ^ nat (bitlen \<lfloor>x\<rfloor> - 1) \<le> \<lfloor>x\<rfloor>" by blast
    then have "(of_int (2 ^ nat (bitlen \<lfloor>x\<rfloor> - 1)) :: rat) \<le> of_int \<lfloor>x\<rfloor>"
      by (simp only: of_int_le_iff)
    also have "\<dots> \<le> x" by simp
    finally have "(2::rat) ^ nat (bitlen \<lfloor>x\<rfloor> - 1) \<le> x" by simp
    moreover have "0 \<le> bitlen \<lfloor>x\<rfloor> - 1"
      using pos bitlen_eq_zero_iff [of "\<lfloor>x\<rfloor>"] bitlen_nonneg [of "\<lfloor>x\<rfloor>"] by linarith
    ultimately show ?thesis using True by (simp add: ilog2_def pow2_def)
  next
    case False
    define k where "k = bitlen (\<lceil>1 / x\<rceil> - 1)"
    have k0: "0 \<le> k" by (simp add: k_def bitlen_nonneg)
    have inv1: "1 < 1 / x" using False assms by simp
    then have pos: "0 < \<lceil>1 / x\<rceil> - 1" by linarith
    from bitlen_bounds [OF pos] have "\<lceil>1 / x\<rceil> - 1 < 2 ^ nat k" by (simp add: k_def)
    then have "\<lceil>1 / x\<rceil> \<le> 2 ^ nat k" by linarith
    then have "1 / x \<le> of_int (2 ^ nat k)" by (simp only: ceiling_le_iff)
    then have "1 / x \<le> 2 ^ nat k" by simp
    then have "1 / 2 ^ nat k \<le> x" using assms by (simp add: field_simps)
    moreover have "pow2 (- k) = 1 / 2 ^ nat k"
      using k0 pow2_neg [of "nat k"] by simp
    ultimately show ?thesis using False by (simp add: ilog2_def k_def)
  qed
  show "x < pow2 (ilog2 x + 1)"
  proof (cases "1 \<le> x")
    case True
    then have pos: "0 < \<lfloor>x\<rfloor>" by linarith
    from bitlen_bounds [OF pos] have "\<lfloor>x\<rfloor> < 2 ^ nat (bitlen \<lfloor>x\<rfloor>)" by blast
    then have "\<lfloor>x\<rfloor> + 1 \<le> 2 ^ nat (bitlen \<lfloor>x\<rfloor>)" by linarith
    then have "(of_int (\<lfloor>x\<rfloor> + 1) :: rat) \<le> of_int (2 ^ nat (bitlen \<lfloor>x\<rfloor>))"
      by (simp only: of_int_le_iff)
    moreover have "x < of_int (\<lfloor>x\<rfloor> + 1)" by linarith
    ultimately have "x < 2 ^ nat (bitlen \<lfloor>x\<rfloor>)" by simp
    moreover have "0 \<le> bitlen \<lfloor>x\<rfloor>" by (rule bitlen_nonneg)
    ultimately show ?thesis using True by (simp add: ilog2_def pow2_def)
  next
    case False
    define k where "k = bitlen (\<lceil>1 / x\<rceil> - 1)"
    have inv1: "1 < 1 / x" using False assms by simp
    then have pos: "0 < \<lceil>1 / x\<rceil> - 1" by linarith
    then have k1: "1 \<le> k"
      using bitlen_eq_zero_iff [of "\<lceil>1 / x\<rceil> - 1"] bitlen_nonneg [of "\<lceil>1 / x\<rceil> - 1"]
      unfolding k_def by linarith
    from bitlen_bounds [OF pos] have "2 ^ nat (k - 1) \<le> \<lceil>1 / x\<rceil> - 1" by (simp add: k_def)
    then have "(of_int (2 ^ nat (k - 1)) :: rat) \<le> of_int (\<lceil>1 / x\<rceil> - 1)"
      by (simp only: of_int_le_iff)
    moreover have "of_int (\<lceil>1 / x\<rceil> - 1) < 1 / x" by linarith
    ultimately have "2 ^ nat (k - 1) < 1 / x" by simp
    then have "x < 1 / 2 ^ nat (k - 1)" using assms by (simp add: field_simps)
    moreover have "pow2 (- k + 1) = 1 / 2 ^ nat (k - 1)"
      using k1 pow2_neg [of "nat (k - 1)"] by simp
    ultimately show ?thesis using False by (simp add: ilog2_def k_def)
  qed
qed


lemma ilog2_unique:
  assumes "0 < x" and "pow2 e \<le> x" and "x < pow2 (e + 1)"
  shows "ilog2 x = e"
proof (rule ccontr)
  assume neq: "ilog2 x \<noteq> e"
  note b = ilog2_bounds [OF assms(1)]
  show False
  proof (cases "ilog2 x < e")
    case True
    then have "pow2 (ilog2 x + 1) \<le> pow2 e" by (intro pow2_mono) simp
    with b(2) assms(2) show False by linarith
  next
    case False
    with neq have "e + 1 \<le> ilog2 x" by simp
    then have "pow2 (e + 1) \<le> pow2 (ilog2 x)" by (rule pow2_mono)
    with b(1) assms(3) show False by linarith
  qed
qed

lemma round_half_even_unique:
  assumes "\<bar>x - of_int n\<bar> < 1 / 2"
  shows "round_half_even x = n"
proof -
  have "\<lfloor>x\<rfloor> = n \<or> \<lfloor>x\<rfloor> = n - 1"
    using assms by (auto simp: abs_less_iff floor_eq_iff)
  then show ?thesis
  proof
    assume f: "\<lfloor>x\<rfloor> = n"
    then have "x - of_int n < 1 / 2" using assms by linarith
    with f show ?thesis by (simp add: round_half_even_def Let_def)
  next
    assume f: "\<lfloor>x\<rfloor> = n - 1"
    have "- (1 / 2) < x - of_int n" using assms by linarith
    then have "1 / 2 < x - of_int (n - 1)" by simp
    with f show ?thesis by (simp add: round_half_even_def Let_def)
  qed
qed

lemma round_half_even_of_int [simp]: "round_half_even (of_int n) = n"
  by (rule round_half_even_unique) simp

lemma round_half_even_error: "\<bar>of_int (round_half_even x) - x\<bar> \<le> 1 / 2"
proof -
  have "of_int \<lfloor>x\<rfloor> \<le> x" "x < of_int \<lfloor>x\<rfloor> + 1" by linarith+
  then show ?thesis
    by (auto simp: round_half_even_def Let_def abs_le_iff)
qed

lemma round_half_even_nonneg: "0 \<le> x \<Longrightarrow> 0 \<le> round_half_even x"
  by (auto simp: round_half_even_def Let_def)

lemma round_pos_eq:
  assumes "0 < x" and "pow2 e \<le> x" and "x < pow2 (e + 1)" and "- 1022 \<le> e"
    and "\<bar>x / pow2 (e - 52) - of_int n\<bar> < 1 / 2"
    and "of_int n * pow2 (e - 52) < pow2 1024"
  shows "round_pos x = Fin (of_int n * pow2 (e - 52))"
proof -
  have "ilog2 x = e" using assms(1-3) by (rule ilog2_unique)
  moreover have "max e (- 1022) = e" using assms(4) by simp
  moreover have "round_half_even (x / pow2 (e - 52)) = n"
    using assms(5) by (rule round_half_even_unique)
  ultimately show ?thesis
    using assms(6) by (simp add: round_pos_def Let_def)
qed

lemma fl_eq:
  assumes "0 < x" and "pow2 e \<le> x" and "x < pow2 (e + 1)" and "- 1022 \<le> e"
    and "\<bar>x / pow2 (e - 52) - of_int n\<bar> < 1 / 2"
    and "of_int n * pow2 (e - 52) < pow2 1024"
  shows "fl x = Fin (of_int n * pow2 (e - 52))"
  using round_pos_eq [OF assms] assms(1) by (simp add: fl_def)

lemma round_pos_error:
  assumes "0 < x" and "x < pow2 1023"
  shows "\<exists>v. round_pos x = Fin v \<and> 0 \<le> v \<and> \<bar>v - x\<bar> \<le> x / 2 ^ 53 + pow2 (- 1075)"
proof -
  define E where "E = max (ilog2 x) (- 1022) - 52"
  define n where "n = round_half_even (x / pow2 E)"
  define v :: rat where "v = of_int n * pow2 E"
  have "\<bar>of_int n - x / pow2 E\<bar> \<le> 1 / 2"
    unfolding n_def by (rule round_half_even_error)
  then have "\<bar>of_int n - x / pow2 E\<bar> * pow2 E \<le> 1 / 2 * pow2 E"
    by (intro mult_right_mono) (simp_all add: less_imp_le)
  moreover have "\<bar>of_int n - x / pow2 E\<bar> * pow2 E = \<bar>v - x\<bar>"
  proof -
    have "\<bar>of_int n - x / pow2 E\<bar> * pow2 E = \<bar>(of_int n - x / pow2 E) * pow2 E\<bar>"
      by (simp add: abs_mult less_imp_le)
    also have "(of_int n - x / pow2 E) * pow2 E = v - x"
    proof -
      show ?thesis by (simp add: v_def left_diff_distrib)
    qed
    finally show ?thesis .
  qed
  ultimately have err: "\<bar>v - x\<bar> \<le> pow2 E / 2" by simp
  have half: "pow2 E / 2 = pow2 (E - 1)"
    using pow2_add [of "E - 1" 1] by (simp add: pow2_def)
  have bound: "pow2 (E - 1) \<le> x / 2 ^ 53 + pow2 (- 1075)"
  proof (cases "- 1022 \<le> ilog2 x")
    case True
    then have "E - 1 = ilog2 x + (- 53)" by (simp add: E_def)
    then have "pow2 (E - 1) = pow2 (ilog2 x) * pow2 (- 53)" by (simp only: pow2_add)
    also have "\<dots> \<le> x * pow2 (- 53)"
      using ilog2_bounds(1) [OF assms(1)] by (intro mult_right_mono) (simp_all add: less_imp_le)
    also have "\<dots> = x / 2 ^ 53" by (simp add: pow2_def)
    finally show ?thesis using pow2_pos [of "- 1075"] by linarith
  next
    case False
    then have "E - 1 = - 1075" by (simp add: E_def)
    then have "pow2 (E - 1) = pow2 (- 1075)" by (simp only:)
    moreover have "0 \<le> x / 2 ^ 53" using assms(1) by simp
    ultimately show ?thesis by linarith
  qed
  have vx: "\<bar>v - x\<bar> \<le> x / 2 ^ 53 + pow2 (- 1075)" using err half bound by linarith
  have "0 \<le> x / pow2 E" using assms(1) by (simp add: less_imp_le)
  then have "0 \<le> n" unfolding n_def by (rule round_half_even_nonneg)
  then have v0: "0 \<le> v" by (simp add: v_def less_imp_le)
  have "pow2 (- 1075) \<le> pow2 0" by (rule pow2_mono) simp
  then have "pow2 (- 1075) \<le> 1" by (simp add: pow2_def)
  moreover have "x / 2 ^ 53 \<le> x / 2" using assms(1) by (simp add: field_simps)
  moreover have "pow2 1024 = 2 * pow2 1023" using pow2_add [of 1023 1] by (simp add: pow2_def)
  moreover have "2 \<le> pow2 1023" using pow2_mono [of 1 1023] by (simp add: pow2_def)
  moreover have "v - x \<le> x / 2 ^ 53 + pow2 (- 1075)" using vx by linarith
  ultimately have "v < pow2 1024" using assms(2) by linarith
  then show ?thesis
    using vx v0 by (simp add: round_pos_def Let_def E_def [symmetric] n_def [symmetric] v_def [symmetric])
qed

lemma fl_error:
  assumes "0 \<le> x" and "x < pow2 1023"
  shows "\<exists>v. fl x = Fin v \<and> 0 \<le> v \<and> \<bar>v - x\<bar> \<le> x / 2 ^ 53 + pow2 (- 1075)"
proof (cases "x = 0")
  case True
  then show ?thesis by (simp add: fl_def less_imp_le)
next
  case False
  with assms(1) have "0 < x" by simp
  from round_pos_error [OF this assms(2)] \<open>0 < x\<close> show ?thesis by (simp add: fl_def)
qed


lemma Math_abs_round_pos: "0 < x \<Longrightarrow> Math_abs (round_pos x) = round_pos x"
proof -
  assume "0 < x"
  then have "0 \<le> x / pow2 (max (ilog2 x) (- 1022) - 52)" by (simp add: less_imp_le)
  then have "0 \<le> round_half_even (x / pow2 (max (ilog2 x) (- 1022) - 52))"
    by (rule round_half_even_nonneg)
  then show ?thesis by (simp add: round_pos_def Let_def less_imp_le)
qed

lemma Math_abs_js_neg [simp]: "Math_abs (js_neg z) = Math_abs z"
  by (cases z) simp_all

lemma Math_abs_fl: "Math_abs (fl y) = fl \<bar>y\<bar>"
  by (simp add: fl_def Math_abs_round_pos)

lemma fl_of_nat:
  assumes "n < 2 ^ 53"
  shows "fl (of_nat n) = Fin (of_nat n)"
proof (cases "n = 0")
  case True
  then show ?thesis by (simp add: fl_def)
next
  case False
  define x :: rat where "x = of_nat n"
  define e where "e = ilog2 x"
  have x0: "0 < x" using False by (simp add: x_def)
  note b = ilog2_bounds [OF x0, folded e_def]
  have "(of_nat n :: rat) < of_nat (2 ^ 53)" using assms by (simp only: of_nat_less_iff)
  then have "x < pow2 53" by (simp add: x_def pow2_def)
  with b(1) have "pow2 e < pow2 53" by linarith
  then have e_hi: "e \<le> 52" using pow2_mono [of 53 e] by (cases "e \<le> 52") auto
  have "1 \<le> x" using False by (simp add: x_def)
  with b(2) have "pow2 0 < pow2 (e + 1)" by (simp add: pow2_def)
  then have e_lo: "0 \<le> e" using pow2_mono [of "e + 1" 0] by (cases "0 \<le> e") auto
  define k where "k = nat (52 - e)"
  have pk: "pow2 (e - 52) = 1 / 2 ^ k"
    using pow2_neg [of k] e_hi by (simp add: k_def)
  have "x / pow2 (e - 52) = of_int (int n * 2 ^ k)"
    by (simp add: pk x_def)
  then have r: "\<bar>x / pow2 (e - 52) - of_int (int n * 2 ^ k)\<bar> < 1 / 2" by simp
  have v: "of_int (int n * 2 ^ k) * pow2 (e - 52) = x"
    by (simp add: pk x_def)
  have "pow2 53 \<le> pow2 1024" by (rule pow2_mono) simp
  with \<open>x < pow2 53\<close> have "of_int (int n * 2 ^ k) * pow2 (e - 52) < pow2 1024"
    unfolding v by linarith
  from fl_eq [OF x0 b(1) b(2) _ r this] e_lo have "fl x = Fin x" unfolding v by simp
  then show ?thesis by (simp add: x_def)
qed

lemma fl_16_9: "fl (16 / 9) = Fin (2001599834386887 / 1125899906842624)"
  using fl_eq [of "16 / 9" 0 8006399337547548] by (simp add: pow2_def)

lemma fl_9_16: "fl (9 / 16) = Fin (9 / 16)"
  using fl_eq [of "9 / 16" "- 1" 5066549580791808] by (simp add: pow2_def)

lemma fl_1_100: "fl (1 / 100) = Fin (5764607523034235 / 576460752303423488)"
  using fl_eq [of "1 / 100" "- 7" 5764607523034235] by (simp add: pow2_def)

lemma fl_tie_diff: "fl (45035996273705 / 4503599627370496) = Fin (45035996273705 / 4503599627370496)"
  using fl_eq [of "45035996273705 / 4503599627370496" "- 7" 5764607523034240]
  by (simp add: pow2_def)

lemma fl_1609_900: "fl (1609 / 900) = Fin (8051435333821253 / 4503599627370496)"
  using fl_eq [of "1609 / 900" 0 8051435333821253] by (simp add: pow2_def)

lemma fl_1591_900: "fl (1591 / 900) = Fin (7961363341273843 / 4503599627370496)"
  using fl_eq [of "1591 / 900" 0 7961363341273843] by (simp add: pow2_def)

lemma fl_229_400: "fl (229 / 400) = Fin (2578310786669609 / 4503599627370496)"
  using fl_eq [of "229 / 400" "- 1" 5156621573339218] by (simp add: pow2_def)

lemma fl_221_400: "fl (221 / 400) = Fin (2488238794122199 / 4503599627370496)"
  using fl_eq [of "221 / 400" "- 1" 4976477588244398] by (simp add: pow2_def)

lemma tie_tests:
  "\<not> js_lt (Math_abs (js_sub (fl (1609 / 900)) (js_div (Fin 16) (Fin 9)))) (fl (1 / 100))"
  "\<not> js_lt (Math_abs (js_sub (fl (1591 / 900)) (js_div (Fin 16) (Fin 9)))) (fl (1 / 100))"
  "\<not> js_lt (Math_abs (js_sub (fl (229 / 400)) (js_div (Fin 9) (Fin 16)))) (fl (1 / 100))"
  "\<not> js_lt (Math_abs (js_sub (fl (221 / 400)) (js_div (Fin 9) (Fin 16)))) (fl (1 / 100))"
  by (simp_all add: fl_16_9 fl_9_16 fl_1_100 fl_1609_900 fl_1591_900 fl_229_400 fl_221_400
      Math_abs_fl fl_tie_diff)


lemma tiny: "pow2 (- 1075) \<le> 1 / 1152921504606846976"
proof -
  have "pow2 (- 1075) \<le> pow2 (- 60)" by (rule pow2_mono) simp
  then show ?thesis by (simp add: pow2_def)
qed

lemma near_centre:
  fixes r c B T :: rat
  assumes r0: "0 \<le> r" and r_hi: "r < 2 ^ 32"
    and B: "\<bar>B - c\<bar> \<le> 1 / 2 ^ 52" and c: "0 \<le> c" "c \<le> 2"
    and T: "\<bar>T - 1 / 100\<bar> \<le> 1 / 2 ^ 59"
    and margin: "1 / 2 ^ 45 \<le> \<bar>\<bar>r - c\<bar> - 1 / 100\<bar>"
  shows "js_lt (Math_abs (js_sub (fl r) (Fin B))) (Fin T) \<longleftrightarrow> \<bar>r - c\<bar> < 1 / 100"
proof -
  have r_hi': "r < 4294967296" using r_hi by simp
  have B': "\<bar>B - c\<bar> \<le> 1 / 4503599627370496" using B by simp
  have T': "\<bar>T - 1 / 100\<bar> \<le> 1 / 576460752303423488" using T by simp
  have margin': "1 / 35184372088832 \<le> \<bar>\<bar>r - c\<bar> - 1 / 100\<bar>" using margin by simp
  have big: "(17179869184::rat) < pow2 1023"
    using pow2_strict_mono [of 34 1023] by (simp add: pow2_def)
  with r_hi' have "r < pow2 1023" by linarith
  from fl_error [OF r0 this] obtain a where
    a: "fl r = Fin a" "0 \<le> a" and "\<bar>a - r\<bar> \<le> r / 2 ^ 53 + pow2 (- 1075)" by blast
  then have a_err: "\<bar>a - r\<bar> \<le> r / 9007199254740992 + pow2 (- 1075)" by simp
  define x where "x = \<bar>a - B\<bar>"
  have x0: "0 \<le> x" by (simp add: x_def)
  have a_hi: "a \<le> 8589934592" using a_err r_hi' r0 tiny by linarith
  have "x \<le> 17179869184" using a_hi a(2) B' c unfolding x_def by linarith
  with big have "x < pow2 1023" by linarith
  from fl_error [OF x0 this] obtain v where
    v: "fl x = Fin v" and "\<bar>v - x\<bar> \<le> x / 2 ^ 53 + pow2 (- 1075)" by blast
  then have v_err: "\<bar>v - x\<bar> \<le> x / 9007199254740992 + pow2 (- 1075)" by simp
  have test: "js_lt (Math_abs (js_sub (fl r) (Fin B))) (Fin T) \<longleftrightarrow> v < T"
    by (simp add: a(1) Math_abs_fl v(1) flip: x_def)
  have "v < T \<longleftrightarrow> \<bar>r - c\<bar> < 1 / 100"
  proof (cases "r < 3")
    case True
    have e1: "\<bar>a - r\<bar> \<le> 1 / 2251799813685248" using a_err True r0 tiny by linarith
    have e2: "\<bar>x - \<bar>r - c\<bar>\<bar> \<le> 1 / 1125899906842624" using e1 B' unfolding x_def by linarith
    have "x \<le> 6" using e2 True r0 c by linarith
    then have e3: "\<bar>v - x\<bar> \<le> 1 / 1125899906842624" using v_err x0 tiny by linarith
    from e2 e3 have e4: "\<bar>v - \<bar>r - c\<bar>\<bar> \<le> 1 / 562949953421312" by linarith
    show ?thesis using e4 T' margin' by linarith
  next
    case False
    then have r3: "3 \<le> r" by simp
    have "29 / 10 \<le> a" using a_err r3 tiny by linarith
    moreover have "B \<le> 21 / 10" using B' c by linarith
    ultimately have "8 / 10 \<le> x" unfolding x_def by linarith
    then have "7 / 10 \<le> v" using v_err tiny by linarith
    moreover have "T \<le> 1 / 10" using T' by linarith
    moreover have "\<not> \<bar>r - c\<bar> < 1 / 100" using r3 c by linarith
    ultimately show ?thesis by linarith
  qed
  with test show ?thesis by simp
qed


lemma ratio_margin:
  fixes w h p q :: nat
  assumes h: "0 < h" "h < 2 ^ 32" and q: "0 < q" "q \<le> 16"
    and ne: "\<bar>(of_nat w / of_nat h :: rat) - of_nat p / of_nat q\<bar> \<noteq> 1 / 100"
  shows "1 / 2 ^ 45 \<le> \<bar>\<bar>(of_nat w / of_nat h :: rat) - of_nat p / of_nat q\<bar> - 1 / 100\<bar>"
proof -
  define D :: int where "D = int q * int w - int p * int h"
  define K :: int where "K = 100 * \<bar>D\<bar> - int q * int h"
  define N :: rat where "N = 100 * of_nat q * of_nat h"
  have N0: "0 < N" using h q by (simp add: N_def)
  have "(of_nat w / of_nat h :: rat) - of_nat p / of_nat q = of_int D / (of_nat q * of_nat h)"
    using h q by (simp add: D_def field_simps)
  then have "\<bar>(of_nat w / of_nat h :: rat) - of_nat p / of_nat q\<bar>
      = of_int \<bar>D\<bar> / (of_nat q * of_nat h)"
    by (simp add: abs_divide)
  then have eq: "\<bar>(of_nat w / of_nat h :: rat) - of_nat p / of_nat q\<bar> - 1 / 100 = of_int K / N"
    using h q by (simp add: K_def N_def field_simps)
  have "K \<noteq> 0" using ne eq by auto
  then have "1 \<le> \<bar>K\<bar>" by linarith
  then have "(1::rat) \<le> of_int \<bar>K\<bar>" by (simp only: of_int_1_le_iff)
  then have "1 / N \<le> \<bar>of_int K / N\<bar>"
    using N0 by (simp add: abs_divide divide_right_mono less_imp_le)
  moreover have "1 / 2 ^ 45 \<le> 1 / N"
  proof -
    have "100 * q * h \<le> 100 * 16 * 2 ^ 32" using h q by (intro mult_mono) simp_all
    then have "100 * q * h \<le> 2 ^ 45" by simp
    then have "(of_nat (100 * q * h) :: rat) \<le> of_nat (2 ^ 45)" by (simp only: of_nat_le_iff)
    then have "N \<le> 2 ^ 45" by (simp add: N_def)
    then show ?thesis using N0 by (simp add: field_simps)
  qed
  ultimately show ?thesis unfolding eq by linarith
qed

lemma ratio_bounds:
  fixes w h :: nat
  assumes "0 < h" and "w < 2 ^ 32"
  shows "0 \<le> (of_nat w / of_nat h :: rat)" and "(of_nat w / of_nat h :: rat) < 2 ^ 32"
proof -
  show "0 \<le> (of_nat w / of_nat h :: rat)" by simp
  have "(of_nat w :: rat) < of_nat (2 ^ 32)" using assms(2) by (simp only: of_nat_less_iff)
  then have "(of_nat w :: rat) < 2 ^ 32" by simp
  moreover have "(1::rat) \<le> of_nat h" using assms(1) by simp
  then have "(2::rat) ^ 32 * 1 \<le> 2 ^ 32 * of_nat h" by (intro mult_left_mono) simp_all
  ultimately have "(of_nat w :: rat) < 2 ^ 32 * of_nat h" by linarith
  then show "(of_nat w / of_nat h :: rat) < 2 ^ 32" using assms(1) by (simp add: field_simps)
qed

lemma js_div_nat:
  fixes w h :: nat
  assumes "0 < h" and "h < 2 ^ 32" and "w < 2 ^ 32"
  shows "js_div (fl (of_nat w)) (fl (of_nat h)) = fl (of_nat w / of_nat h)"
proof -
  have "w < 2 ^ 53" "h < 2 ^ 53" using assms by (simp_all add: less_trans)
  then show ?thesis using assms(1) by (simp add: fl_of_nat)
qed

lemma landscape_test:
  fixes w h :: nat
  assumes "0 < h" and "h < 2 ^ 32" and "w < 2 ^ 32"
  shows "js_lt (Math_abs (js_sub (js_div (fl (of_nat w)) (fl (of_nat h))) (js_div (Fin 16) (Fin 9))))
           (fl (1 / 100))
         \<longleftrightarrow> \<bar>(of_nat w / of_nat h :: rat) - 16 / 9\<bar> < 1 / 100"
proof -
  define r :: rat where "r = of_nat w / of_nat h"
  note rb = ratio_bounds [OF assms(1,3), folded r_def]
  show ?thesis
    unfolding js_div_nat [OF assms] r_def [symmetric]
  proof (cases "\<bar>r - 16 / 9\<bar> = 1 / 100")
    case True
    then have "r = 1609 / 900 \<or> r = 1591 / 900" by linarith
    then have "\<not> js_lt (Math_abs (js_sub (fl r) (js_div (Fin 16) (Fin 9)))) (fl (1 / 100))"
      using tie_tests(1,2) by blast
    then show "js_lt (Math_abs (js_sub (fl r) (js_div (Fin 16) (Fin 9)))) (fl (1 / 100))
         \<longleftrightarrow> \<bar>r - 16 / 9\<bar> < 1 / 100"
      using True by simp
  next
    case False
    then have "\<bar>(of_nat w / of_nat h :: rat) - of_nat 16 / of_nat 9\<bar> \<noteq> 1 / 100"
      by (simp add: r_def)
    from ratio_margin [OF assms(1,2) _ _ this]
    have m: "1 / 2 ^ 45 \<le> \<bar>\<bar>r - 16 / 9\<bar> - 1 / 100\<bar>" by (simp add: r_def)
    have "js_lt (Math_abs (js_sub (fl r) (Fin (2001599834386887 / 1125899906842624))))
            (Fin (5764607523034235 / 576460752303423488))
          \<longleftrightarrow> \<bar>r - 16 / 9\<bar> < 1 / 100"
      by (rule near_centre [OF rb _ _ _ _ m]) simp_all
    then show "js_lt (Math_abs (js_sub (fl r) (js_div (Fin 16) (Fin 9)))) (fl (1 / 100))
         \<longleftrightarrow> \<bar>r - 16 / 9\<bar> < 1 / 100"
      by (simp add: fl_16_9 fl_1_100)
  qed
qed

lemma portrait_test:
  fixes w h :: nat
  assumes "0 < h" and "h < 2 ^ 32" and "w < 2 ^ 32"
  shows "js_lt (Math_abs (js_sub (js_div (fl (of_nat w)) (fl (of_nat h))) (js_div (Fin 9) (Fin 16))))
           (fl (1 / 100))
         \<longleftrightarrow> \<bar>(of_nat w / of_nat h :: rat) - 9 / 16\<bar> < 1 / 100"
proof -
  define r :: rat where "r = of_nat w / of_nat h"
  note rb = ratio_bounds [OF assms(1,3), folded r_def]
  show ?thesis
    unfolding js_div_nat [OF assms] r_def [symmetric]
  proof (cases "\<bar>r - 9 / 16\<bar> = 1 / 100")
    case True
    then have "r = 229 / 400 \<or> r = 221 / 400" by linarith
    then have "\<not> js_lt (Math_abs (js_sub (fl r) (js_div (Fin 9) (Fin 16)))) (fl (1 / 100))"
      using tie_tests(3,4) by blast
    then show "js_lt (Math_abs (js_sub (fl r) (js_div (Fin 9) (Fin 16)))) (fl (1 / 100))
         \<longleftrightarrow> \<bar>r - 9 / 16\<bar> < 1 / 100"
      using True by simp
  next
    case False
    then have "\<bar>(of_nat w / of_nat h :: rat) - of_nat 9 / of_nat 16\<bar> \<noteq> 1 / 100"
      by (simp add: r_def)
    from ratio_margin [OF assms(1,2) _ _ this]
    have m: "1 / 2 ^ 45 \<le> \<bar>\<bar>r - 9 / 16\<bar> - 1 / 100\<bar>" by (simp add: r_def)
    have "js_lt (Math_abs (js_sub (fl r) (Fin (9 / 16))))
            (Fin (5764607523034235 / 576460752303423488))
          \<longleftrightarrow> \<bar>r - 9 / 16\<bar> < 1 / 100"
      by (rule near_centre [OF rb _ _ _ _ m]) simp_all
    then show "js_lt (Math_abs (js_sub (fl r) (js_div (Fin 9) (Fin 16)))) (fl (1 / 100))
         \<longleftrightarrow> \<bar>r - 9 / 16\<bar> < 1 / 100"
      by (simp add: fl_9_16 fl_1_100)
  qed
qed

section \<open>Errors of the two process wrappers\<close>

lemma MAX_UPLOAD_SIZE_val: "MAX_UPLOAD_SIZE = 1073741824"
  by (simp add: MAX_UPLOAD_SIZE_def)

lemma ToNumber_error: "ToNumber rt v = Inl e \<Longrightarrow> e = TypeError"
  by (cases v) (auto split: option.splits)

lemma js_get_error: "js_get v k = Inl e \<Longrightarrow> e = TypeError"
  by (cases v) auto

lemma getVideoAspectRatio_error:
  "getVideoAspectRatio rt fs p = Inl e \<Longrightarrow> e = SyntaxError \<or> e = TypeError \<or> (\<exists>m. e = Error m)"
  by (auto simp: getVideoAspectRatio_def Let_def split: option.splits sum.splits if_splits
      dest: ToNumber_error js_get_error)

lemma processVideoForFastStart_error:
  "processVideoForFastStart rt fs p = (Inl e, fs') \<Longrightarrow> \<exists>m. e = Error m"
  by (auto simp: processVideoForFastStart_def Let_def split: prod.splits if_splits)

section \<open>The checks of the handler\<close>

lemma rt_ex_auth [simp]:
  "getBearerToken rt_ex [(''Authorization'', ''Bearer token-alice'')] = Inr ''token-alice''"
  "getBearerToken rt_ex [(''Authorization'', ''Bearer token-bob'')] = Inr ''token-bob''"
  "validateJWT rt_ex ''token-alice'' s = Inr ''alice''"
  "validateJWT rt_ex ''token-bob'' s = Inr ''bob''"
  by (simp_all add: rt_ex_def)




text \<open>
  C7.  Once the request has an identifier, an authenticated actor and a file part, the
  handler rejects on size exactly when the file's size exceeds \<open>1 << 30 = 2\<^sup>3\<^sup>0\<close>
  bytes: a larger file gives the BadRequestError (the spec's InvalidRequest) with the
  state untouched, so that no file has been written; a file of at most \<open>2\<^sup>3\<^sup>0\<close>
  bytes, and so one of exactly \<open>2\<^sup>3\<^sup>0\<close>, never gives that error.
\<close>

theorem handlerUploadVideo_size_ceiling:
  assumes "params_videoId req = Some videoId" and "videoId \<noteq> []"
    and "getBearerToken rt (headers req) = Inr token"
    and "validateJWT rt token (jwtSecret cfg) = Inr uid"
    and "formData req = Inr form"
    and "form ''video'' = Some (FormFile videoData)"
  shows "MAX_UPLOAD_SIZE = 2 ^ 30
       \<and> (2 ^ 30 < size_File videoData \<longrightarrow>
            handlerUploadVideo rt cfg req w =
              (Inl (BadRequestError ''Video is larger than 1GB''), w))
       \<and> (size_File videoData \<le> 2 ^ 30 \<longrightarrow>
            fst (handlerUploadVideo rt cfg req w) \<noteq>
              Inl (BadRequestError ''Video is larger than 1GB''))"
  using assms
  by (auto simp: handlerUploadVideo_def MAX_UPLOAD_SIZE_val Let_def
      split: option.splits sum.splits prod.splits
      dest: getVideoAspectRatio_error processVideoForFastStart_error)

theorem handlerUploadVideo_size_ceiling_witness:
  "handlerUploadVideo rt_ex cfg_ex
     (req_ex\<lparr>formData := Inr [''video'' \<mapsto> FormFile (file_ex\<lparr>size_File := 2 ^ 30 + 1\<rparr>)]\<rparr>)
     world_ex
   = (Inl (BadRequestError ''Video is larger than 1GB''), world_ex)
   \<and> fst (handlerUploadVideo rt_ex cfg_ex
       (req_ex\<lparr>formData := Inr [''video'' \<mapsto> FormFile (file_ex\<lparr>size_File := 2 ^ 30\<rparr>)]\<rparr>)
       world_ex)
     \<noteq> Inl (BadRequestError ''Video is larger than 1GB'')"
  using
    handlerUploadVideo_size_ceiling [of
      "req_ex\<lparr>formData := Inr [''video'' \<mapsto> FormFile (file_ex\<lparr>size_File := 2 ^ 30 + 1\<rparr>)]\<rparr>"
      "''v1''" rt_ex "''token-alice''" cfg_ex "''alice''"
      "[''video'' \<mapsto> FormFile (file_ex\<lparr>size_File := 2 ^ 30 + 1\<rparr>)]"
      "file_ex\<lparr>size_File := 2 ^ 30 + 1\<rparr>" world_ex]
    handlerUploadVideo_size_ceiling [of
      "req_ex\<lparr>formData := Inr [''video'' \<mapsto> FormFile (file_ex\<lparr>size_File := 2 ^ 30\<rparr>)]\<rparr>"
      "''v1''" rt_ex "''token-alice''" cfg_ex "''alice''"
      "[''video'' \<mapsto> FormFile (file_ex\<lparr>size_File := 2 ^ 30\<rparr>)]"
      "file_ex\<lparr>size_File := 2 ^ 30\<rparr>" world_ex]
  by (simp add: req_ex_def)

section \<open>Signing the stored location\<close>

text \<open>
  C9.  For a record whose \<open>videoURL\<close> is unset or the empty string,
  \<open>dbVideoToSignedVideo\<close> returns the record as it is, whatever the signer: no presigned
  URL is generated.  Only a record with a non-empty \<open>videoURL\<close> has it replaced, by
  the URL presigned for that value.
\<close>

theorem dbVideoToSignedVideo_unset:
  "(videoURL video = None \<or> videoURL video = Some [] \<longrightarrow>
      (\<forall>p. dbVideoToSignedVideo (rt\<lparr>presign := p\<rparr>) video = video))
   \<and> (\<forall>u. videoURL video = Some u \<and> u \<noteq> [] \<longrightarrow>
        dbVideoToSignedVideo rt video = video\<lparr>videoURL := Some (presign rt u 3600)\<rparr>)"
  by (auto simp: dbVideoToSignedVideo_def generatePresignedURL_def)

theorem dbVideoToSignedVideo_unset_witness:
  "dbVideoToSignedVideo (rt_ex\<lparr>presign := (\<lambda>k t. ''signed'')\<rparr>) video_ex = video_ex
   \<and> dbVideoToSignedVideo rt_ex (video_ex\<lparr>videoURL := Some ''other/a.mp4''\<rparr>)
     = video_ex\<lparr>videoURL := Some ''https://bucket.example/other/a.mp4?X-Amz-Signature=0a1b''\<rparr>"
  using dbVideoToSignedVideo_unset [of video_ex rt_ex]
    dbVideoToSignedVideo_unset [of "video_ex\<lparr>videoURL := Some ''other/a.mp4''\<rparr>" rt_ex]
  by (simp add: video_ex_def rt_ex_def)

section \<open>Geometry classification\<close>

lemma getVideoAspectRatio_dims:
  fixes w h :: nat
  assumes "exited (ffprobe rt (ffprobe_cmd filePath) fs) = 0"
    and "JSON_parse rt (stdout (ffprobe rt (ffprobe_cmd filePath) fs)) = Some parsed"
    and "js_get parsed ''streams'' = Inr streams"
    and "js_get streams ''0'' = Inr obj"
    and "js_get obj ''width'' = Inr (JNum (of_nat w))"
    and "js_get obj ''height'' = Inr (JNum (of_nat h))"
    and "0 < h" and "h < 2 ^ 32" and "w < 2 ^ 32"
  shows "getVideoAspectRatio rt fs filePath =
           Inr (if \<bar>(of_nat w / of_nat h :: rat) - 16 / 9\<bar> < 1 / 100 then ''landscape''
                else if \<bar>(of_nat w / of_nat h :: rat) - 9 / 16\<bar> < 1 / 100 then ''portrait''
                else ''other'')"
  using assms(1-6) landscape_test [OF assms(7-9)] portrait_test [OF assms(7-9)]
  by (simp add: getVideoAspectRatio_def Let_def)

lemma rt_ex_probe [simp]:
  "exited (ffprobe rt_ex cmd fs) = 0"
  "stdout (ffprobe rt_ex cmd fs) = probe_text"
  "JSON_parse rt_ex probe_text =
     Some (JObj [(''streams'', JArr [JObj [(''width'', JNum 1920), (''height'', JNum 1080)]])])"
  by (simp_all add: rt_ex_def)

lemma getVideoAspectRatio_ex: "getVideoAspectRatio rt_ex fs p = Inr ''landscape''"
  using getVideoAspectRatio_dims [of rt_ex p fs _ _ _ 1920 1080] by simp

lemma rt_report_probe [simp]:
  "exited (ffprobe (rt_report text v) cmd fs) = 0"
  "stdout (ffprobe (rt_report text v) cmd fs) = text"
  "JSON_parse (rt_report text v) text = Some v"
  by (simp_all add: rt_report_def)

text \<open>
  C3.  Let the probe exit with 0 and report, in the first entry of \<open>streams\<close>, the width
  \<open>w\<close> and the height \<open>h\<close>, integers with \<open>0 < h < 2\<^sup>3\<^sup>2\<close> and \<open>w < 2\<^sup>3\<^sup>2\<close>.
  Then the class returned is landscape if and only if \<open>|w/h - 16/9| < 0.01\<close>, portrait
  if and only if \<open>|w/h - 9/16| < 0.01\<close>, and other in all remaining cases; a ratio of
  exactly \<open>16/9 \<plusminus> 0.0099\<close> is landscape and one of exactly \<open>16/9 \<plusminus> 0.0101\<close> is other.
  The right-hand sides are comparisons of exact rationals; the function computes in
  binary64, and the two agree on these inputs.
\<close>

theorem getVideoAspectRatio_classification:
  fixes w h :: nat
  assumes "exited (ffprobe rt (ffprobe_cmd filePath) fs) = 0"
    and "JSON_parse rt (stdout (ffprobe rt (ffprobe_cmd filePath) fs)) = Some parsed"
    and "js_get parsed ''streams'' = Inr streams"
    and "js_get streams ''0'' = Inr obj"
    and "js_get obj ''width'' = Inr (JNum (of_nat w))"
    and "js_get obj ''height'' = Inr (JNum (of_nat h))"
    and "0 < h" and "h < 2 ^ 32" and "w < 2 ^ 32"
  defines "r \<equiv> (of_nat w / of_nat h :: rat)"
  shows "(getVideoAspectRatio rt fs filePath = Inr ''landscape'' \<longleftrightarrow> \<bar>r - 16 / 9\<bar> < 1 / 100)
       \<and> (getVideoAspectRatio rt fs filePath = Inr ''portrait'' \<longleftrightarrow> \<bar>r - 9 / 16\<bar> < 1 / 100)
       \<and> (getVideoAspectRatio rt fs filePath = Inr ''other'' \<longleftrightarrow>
            \<not> \<bar>r - 16 / 9\<bar> < 1 / 100 \<and> \<not> \<bar>r - 9 / 16\<bar> < 1 / 100)
       \<and> (r = 16 / 9 + 99 / 10000 \<or> r = 16 / 9 - 99 / 10000 \<longrightarrow>
            getVideoAspectRatio rt fs filePath = Inr ''landscape'')
       \<and> (r = 16 / 9 + 101 / 10000 \<or> r = 16 / 9 - 101 / 10000 \<longrightarrow>
            getVideoAspectRatio rt fs filePath = Inr ''other'')"
proof -
  have eq: "getVideoAspectRatio rt fs filePath =
           Inr (if \<bar>r - 16 / 9\<bar> < 1 / 100 then ''landscape''
                else if \<bar>r - 9 / 16\<bar> < 1 / 100 then ''portrait'' else ''other'')"
    unfolding r_def using assms(1-9) by (rule getVideoAspectRatio_dims)
  have disjoint: "\<bar>r - 9 / 16\<bar> < 1 / 100 \<Longrightarrow> \<not> \<bar>r - 16 / 9\<bar> < 1 / 100" by linarith
  have a: "getVideoAspectRatio rt fs filePath = Inr ''landscape'' \<longleftrightarrow> \<bar>r - 16 / 9\<bar> < 1 / 100"
    unfolding eq by simp
  have b: "getVideoAspectRatio rt fs filePath = Inr ''portrait'' \<longleftrightarrow> \<bar>r - 9 / 16\<bar> < 1 / 100"
    unfolding eq using disjoint by auto
  have c: "getVideoAspectRatio rt fs filePath = Inr ''other'' \<longleftrightarrow>
            \<not> \<bar>r - 16 / 9\<bar> < 1 / 100 \<and> \<not> \<bar>r - 9 / 16\<bar> < 1 / 100"
    unfolding eq by simp
  have d: "getVideoAspectRatio rt fs filePath = Inr ''landscape''"
    if "r = 16 / 9 + 99 / 10000 \<or> r = 16 / 9 - 99 / 10000"
    unfolding a using that by auto
  have e: "getVideoAspectRatio rt fs filePath = Inr ''other''"
    if "r = 16 / 9 + 101 / 10000 \<or> r = 16 / 9 - 101 / 10000"
    unfolding c using that by auto
  from a b c d e show ?thesis by blast
qed

theorem getVideoAspectRatio_classification_witness:
  \<open>getVideoAspectRatio rt_ex Map.empty ''/tmp/assets/a.mp4'' = Inr ''landscape''
   \<and> getVideoAspectRatio
       (rt_report ''{"streams":[{"width":1080,"height":1920}]}''
          (JObj [(''streams'', JArr [JObj [(''width'', JNum 1080), (''height'', JNum 1920)]])]))
       Map.empty ''/tmp/assets/a.mp4'' = Inr ''portrait''
   \<and> getVideoAspectRatio
       (rt_report ''{"streams":[{"width":160891,"height":90000}]}''
          (JObj [(''streams'', JArr [JObj [(''width'', JNum 160891), (''height'', JNum 90000)]])]))
       Map.empty ''/tmp/assets/a.mp4'' = Inr ''landscape''
   \<and> getVideoAspectRatio
       (rt_report ''{"streams":[{"width":160909,"height":90000}]}''
          (JObj [(''streams'', JArr [JObj [(''width'', JNum 160909), (''height'', JNum 90000)]])]))
       Map.empty ''/tmp/assets/a.mp4'' = Inr ''other''
   \<and> getVideoAspectRatio
       (rt_report ''{"streams":[{"width":1609,"height":900}]}''
          (JObj [(''streams'', JArr [JObj [(''width'', JNum 1609), (''height'', JNum 900)]])]))
       Map.empty ''/tmp/assets/a.mp4'' = Inr ''other''\<close>
  using
    getVideoAspectRatio_classification [of rt_ex "''/tmp/assets/a.mp4''" Map.empty
      "JObj [(''streams'', JArr [JObj [(''width'', JNum 1920), (''height'', JNum 1080)]])]"
      "JArr [JObj [(''width'', JNum 1920), (''height'', JNum 1080)]]"
      "JObj [(''width'', JNum 1920), (''height'', JNum 1080)]" 1920 1080]
    getVideoAspectRatio_classification [of
      \<open>rt_report ''{"streams":[{"width":1080,"height":1920}]}''
          (JObj [(''streams'', JArr [JObj [(''width'', JNum 1080), (''height'', JNum 1920)]])])\<close>
      "''/tmp/assets/a.mp4''" Map.empty
      "JObj [(''streams'', JArr [JObj [(''width'', JNum 1080), (''height'', JNum 1920)]])]"
      "JArr [JObj [(''width'', JNum 1080), (''height'', JNum 1920)]]"
      "JObj [(''width'', JNum 1080), (''height'', JNum 1920)]" 1080 1920]
    getVideoAspectRatio_classification [of
      \<open>rt_report ''{"streams":[{"width":160891,"height":90000}]}''
          (JObj [(''streams'', JArr [JObj [(''width'', JNum 160891), (''height'', JNum 90000)]])])\<close>
      "''/tmp/assets/a.mp4''" Map.empty
      "JObj [(''streams'', JArr [JObj [(''width'', JNum 160891), (''height'', JNum 90000)]])]"
      "JArr [JObj [(''width'', JNum 160891), (''height'', JNum 90000)]]"
      "JObj [(''width'', JNum 160891), (''height'', JNum 90000)]" 160891 90000]
    getVideoAspectRatio_classification [of
      \<open>rt_report ''{"streams":[{"width":160909,"height":90000}]}''
          (JObj [(''streams'', JArr [JObj [(''width'', JNum 160909), (''height'', JNum 90000)]])])\<close>
      "''/tmp/assets/a.mp4''" Map.empty
      "JObj [(''streams'', JArr [JObj [(''width'', JNum 160909), (''height'', JNum 90000)]])]"
      "JArr [JObj [(''width'', JNum 160909), (''height'', JNum 90000)]]"
      "JObj [(''width'', JNum 160909), (''height'', JNum 90000)]" 160909 90000]
    getVideoAspectRatio_classification [of
      \<open>rt_report ''{"streams":[{"width":1609,"height":900}]}''
          (JObj [(''streams'', JArr [JObj [(''width'', JNum 1609), (''height'', JNum 900)]])])\<close>
      "''/tmp/assets/a.mp4''" Map.empty
      "JObj [(''streams'', JArr [JObj [(''width'', JNum 1609), (''height'', JNum 900)]])]"
      "JArr [JObj [(''width'', JNum 1609), (''height'', JNum 900)]]"
      "JObj [(''width'', JNum 1609), (''height'', JNum 900)]" 1609 900]
  by simp

section \<open>Probe output without dimensions\<close>

lemma js_div_NaN [simp]: "js_div x NaN = NaN"
  by (cases x) simp_all

text \<open>
  C10, as stated, fails: \<open>getVideoAspectRatio\<close> does not fail on every probe output
  that lacks numeric dimensions.  For the output \<open>{"streams":[{}]}\<close> the first entry has
  neither \<open>width\<close> nor \<open>height\<close>, both reads give \<open>undefined\<close>, the quotient is NaN,
  both comparisons are false, and the function returns the class other.
\<close>

theorem getVideoAspectRatio_absent_dims_counterexample:
  \<open>js_get (JObj []) ''width'' = Inr JUndefined
   \<and> js_get (JObj []) ''height'' = Inr JUndefined
   \<and> getVideoAspectRatio (rt_report ''{"streams":[{}]}'' (JObj [(''streams'', JArr [JObj []])]))
       Map.empty ''/tmp/assets/a.mp4'' = Inr ''other''\<close>
  by (simp add: getVideoAspectRatio_def)

text \<open>
  C10, amended.  \<open>getVideoAspectRatio\<close> reads \<open>streams[0]\<close>, \<open>width\<close> and \<open>height\<close> with
  no presence check.  A probe that exits non-zero gives an Error ending in its diagnostic
  stream.  Otherwise: output that is not JSON gives a SyntaxError; a parsed value that is
  \<open>null\<close>, a \<open>streams\<close> that is missing, \<open>null\<close> or empty, and a first entry that is
  \<open>null\<close> give a TypeError; a first entry with numeric width and height gives one of
  the three classes; and a first entry in which width or height is absent, the other
  being absent or a number, does not fail but gives the class other.
\<close>

theorem getVideoAspectRatio_unchecked_reads:
  fixes rt fs filePath
  defines "sub \<equiv> ffprobe rt (ffprobe_cmd filePath) fs"
  defines "res \<equiv> getVideoAspectRatio rt fs filePath"
  shows "(exited sub \<noteq> 0 \<longrightarrow> (\<exists>m. res = Inl (Error (m @ stderr sub))))
   \<and> (exited sub = 0 \<longrightarrow>
        (JSON_parse rt (stdout sub) = None \<longrightarrow> res = Inl SyntaxError)
      \<and> (\<forall>parsed. JSON_parse rt (stdout sub) = Some parsed \<longrightarrow>
           (parsed = JNull \<longrightarrow> res = Inl TypeError)
         \<and> (\<forall>streams. js_get parsed ''streams'' = Inr streams \<longrightarrow>
              (streams = JUndefined \<or> streams = JNull \<or> streams = JArr [] \<longrightarrow>
                 res = Inl TypeError)
            \<and> (\<forall>obj. js_get streams ''0'' = Inr obj \<longrightarrow>
                 (obj = JNull \<longrightarrow> res = Inl TypeError)
               \<and> (\<forall>wd ht. js_get obj ''width'' = Inr wd \<and> js_get obj ''height'' = Inr ht \<longrightarrow>
                    ((\<exists>a b. wd = JNum a \<and> ht = JNum b) \<longrightarrow>
                       res = Inr ''landscape'' \<or> res = Inr ''portrait'' \<or> res = Inr ''other'')
                  \<and> (wd = JUndefined \<and> (ht = JUndefined \<or> (\<exists>b. ht = JNum b))
                      \<or> ht = JUndefined \<and> (\<exists>a. wd = JNum a) \<longrightarrow>
                       res = Inr ''other''))))))"
  unfolding res_def sub_def
  by (auto simp: getVideoAspectRatio_def Let_def split: if_splits)

theorem getVideoAspectRatio_unchecked_reads_witness:
  \<open>getVideoAspectRatio (rt_report ''not json'' JNull\<lparr>JSON_parse := (\<lambda>t. None)\<rparr>)
       Map.empty ''/tmp/assets/a.mp4'' = Inl SyntaxError
   \<and> getVideoAspectRatio (rt_report ''null'' JNull) Map.empty ''/tmp/assets/a.mp4''
       = Inl TypeError
   \<and> getVideoAspectRatio (rt_report ''{}'' (JObj [])) Map.empty ''/tmp/assets/a.mp4''
       = Inl TypeError
   \<and> getVideoAspectRatio (rt_report ''{"streams":[]}'' (JObj [(''streams'', JArr [])]))
       Map.empty ''/tmp/assets/a.mp4'' = Inl TypeError
   \<and> getVideoAspectRatio (rt_report ''{"streams":[null]}'' (JObj [(''streams'', JArr [JNull])]))
       Map.empty ''/tmp/assets/a.mp4'' = Inl TypeError
   \<and> getVideoAspectRatio
       (rt_report ''{"streams":[{"width":1920}]}''
          (JObj [(''streams'', JArr [JObj [(''width'', JNum 1920)]])]))
       Map.empty ''/tmp/assets/a.mp4'' = Inr ''other''\<close>
  using
    getVideoAspectRatio_unchecked_reads [of
      \<open>rt_report ''not json'' JNull\<lparr>JSON_parse := (\<lambda>t. None)\<rparr>\<close> "''/tmp/assets/a.mp4''" Map.empty]
    getVideoAspectRatio_unchecked_reads [of
      \<open>rt_report ''null'' JNull\<close> "''/tmp/assets/a.mp4''" Map.empty]
    getVideoAspectRatio_unchecked_reads [of
      \<open>rt_report ''{}'' (JObj [])\<close> "''/tmp/assets/a.mp4''" Map.empty]
    getVideoAspectRatio_unchecked_reads [of
      \<open>rt_report ''{"streams":[]}'' (JObj [(''streams'', JArr [])])\<close>
      "''/tmp/assets/a.mp4''" Map.empty]
    getVideoAspectRatio_unchecked_reads [of
      \<open>rt_report ''{"streams":[null]}'' (JObj [(''streams'', JArr [JNull])])\<close>
      "''/tmp/assets/a.mp4''" Map.empty]
    getVideoAspectRatio_unchecked_reads [of
      \<open>rt_report ''{"streams":[{"width":1920}]}''
          (JObj [(''streams'', JArr [JObj [(''width'', JNum 1920)]])])\<close>
      "''/tmp/assets/a.mp4''" Map.empty]
  by (simp add: rt_report_def)

section \<open>The steps after the checks\<close>

lemma extension_mp4: "template (at_last (split_on CHR ''/'' ''video/mp4'')) = ''mp4''"
  by (simp add: template_def at_last_def)

lemma processVideoForFastStart_Inr:
  assumes "processVideoForFastStart rt fs p = (Inr q, fs')"
  shows "q = p @ ''.processed''"
    and "exited (fst (ffmpeg rt (ffmpeg_cmd p (p @ ''.processed'')) fs)) = 0"
    and "fs' = (case snd (ffmpeg rt (ffmpeg_cmd p (p @ ''.processed'')) fs) of
                  None \<Rightarrow> fs | Some out \<Rightarrow> fs(p @ ''.processed'' \<mapsto> out))"
  using assms
  by (auto simp: processVideoForFastStart_def Let_def split: prod.splits if_splits)

lemma processVideoForFastStart_Inl:
  assumes "processVideoForFastStart rt fs p = (Inl e, fs')"
  shows "exited (fst (ffmpeg rt (ffmpeg_cmd p (p @ ''.processed'')) fs)) \<noteq> 0"
    and "e = Error (''Failed to process video for fast start '' @ p @ '': '' @ [CHR 0x0A]
                @ stderr (fst (ffmpeg rt (ffmpeg_cmd p (p @ ''.processed'')) fs)))"
    and "fs' = (case snd (ffmpeg rt (ffmpeg_cmd p (p @ ''.processed'')) fs) of
                  None \<Rightarrow> fs | Some out \<Rightarrow> fs(p @ ''.processed'' \<mapsto> out))"
  using assms
  by (auto simp: processVideoForFastStart_def Let_def split: prod.splits if_splits)

lemma handlerUploadVideo_success:
  assumes "handlerUploadVideo rt cfg req w = (Inr resp, w')"
  shows "\<exists>videoId token uid form videoData video prefix fs2 localFile.
      params_videoId req = Some videoId \<and> videoId \<noteq> []
    \<and> getBearerToken rt (headers req) = Inr token
    \<and> validateJWT rt token (jwtSecret cfg) = Inr uid
    \<and> formData req = Inr form
    \<and> form ''video'' = Some (FormFile videoData)
    \<and> size_File videoData \<le> 2 ^ 30
    \<and> getVideo (db w) videoId = Some video
    \<and> userID video = uid
    \<and> type_File videoData = ''video/mp4''
    \<and> (let fileName = base64url (randomBytes rt 32) @ ''.mp4'';
            targetPath = path_join rt (assetsRoot cfg) fileName;
            fs1 = (files w)(targetPath \<mapsto> arrayBuffer videoData);
            key = prefix @ ''/'' @ fileName
        in getVideoAspectRatio rt fs1 targetPath = Inr prefix
         \<and> processVideoForFastStart rt fs1 targetPath = (Inr (targetPath @ ''.processed''), fs2)
         \<and> fs2 (targetPath @ ''.processed'') = Some localFile
         \<and> w' = \<lparr>db = updateVideo (db w) (video\<lparr>videoURL := Some key\<rparr>),
                  files = fs2(targetPath := None, targetPath @ ''.processed'' := None),
                  s3 = (s3 w)(key \<mapsto> localFile)\<rparr>
         \<and> resp = respondWithJSON 200 (dbVideoToSignedVideo rt (video\<lparr>videoURL := Some key\<rparr>)))"
  using assms
  by (auto simp: handlerUploadVideo_def Let_def MAX_UPLOAD_SIZE_val template_def at_last_def
      split: option.splits sum.splits if_splits FormDataEntryValue.splits prod.splits
      dest: processVideoForFastStart_Inr(1))







lemma name_ex: "base64url (randomBytes rt_ex 32) = ''AwoRGB8mLTQ7QklQV15lbHN6gYiPlp2kq7K5wMfO1dw''"
  by (simp add: randomBytes_def rt_ex_def b64_def base64url_alphabet_def upt_rec)



lemma getVideo_id: "getVideo d i = Some v \<Longrightarrow> id_Video v = i"
  by (induction d) (auto simp: getVideo_def split: if_splits)

lemma getVideo_updateVideo:
  "getVideo d i = Some v \<Longrightarrow> id_Video v' = i \<Longrightarrow> getVideo (updateVideo d v') i = Some v'"
  by (induction d) (auto simp: getVideo_def updateVideo_def split: if_splits)

lemma set_updateVideo: "set (updateVideo d v') \<subseteq> set d \<union> {v'}"
  by (auto simp: updateVideo_def)




section \<open>The example run\<close>

lemma rt_ex_misc [simp]:
  "path_join rt_ex a b = a @ ''/'' @ b"
  "ffmpeg rt_ex cmd fs = (\<lparr>exited = 0, stdout = [], stderr = []\<rparr>, Some [9, 8, 7])"
  "presign rt_ex key t = ''https://bucket.example/'' @ key @ ''?X-Amz-Signature=0a1b''"
  by (simp_all add: rt_ex_def)

lemma ex_fields [simp]:
  "params_videoId req_ex = Some ''v1''"
  "headers req_ex = [(''Authorization'', ''Bearer token-alice'')]"
  "formData req_ex = Inr [''video'' \<mapsto> FormFile file_ex]"
  "db world_ex = [video_ex]" "files world_ex = Map.empty" "s3 world_ex = Map.empty"
  "assetsRoot cfg_ex = ''/tmp/assets''" "jwtSecret cfg_ex = ''secret''"
  "id_Video video_ex = ''v1''" "userID video_ex = ''alice''" "videoURL video_ex = None"
  "size_File file_ex = 3" "type_File file_ex = ''video/mp4''" "arrayBuffer file_ex = [1, 2, 3]"
  by (simp_all add: req_ex_def world_ex_def cfg_ex_def video_ex_def file_ex_def)

lemma upload_ex:
  "handlerUploadVideo rt_ex cfg_ex req_ex world_ex =
     (Inr \<lparr>status = 200,
           body = video_ex\<lparr>videoURL := Some ''https://bucket.example/landscape/AwoRGB8mLTQ7QklQV15lbHN6gYiPlp2kq7K5wMfO1dw.mp4?X-Amz-Signature=0a1b''\<rparr>\<rparr>,
      \<lparr>db = [video_ex\<lparr>videoURL := Some ''landscape/AwoRGB8mLTQ7QklQV15lbHN6gYiPlp2kq7K5wMfO1dw.mp4''\<rparr>],
       files = Map.empty,
       s3 = [''landscape/AwoRGB8mLTQ7QklQV15lbHN6gYiPlp2kq7K5wMfO1dw.mp4'' \<mapsto> [9, 8, 7]]\<rparr>)"
  by (simp add: handlerUploadVideo_def req_ex_def cfg_ex_def world_ex_def file_ex_def
      MAX_UPLOAD_SIZE_val getVideo_def video_ex_def template_def at_last_def name_ex
      getVideoAspectRatio_ex processVideoForFastStart_def Let_def updateVideo_def
      dbVideoToSignedVideo_def generatePresignedURL_def respondWithJSON_def)

section \<open>What a successful upload leaves\<close>





section \<open>The signed view\<close>

text \<open>
  C5.  After a successful upload the response has status 200 and its body is the record
  with \<open>videoURL\<close> replaced by the URL that \<open>presign\<close> gives for the storage key with
  a validity of 3600 seconds, the default of \<open>generatePresignedURL\<close>.  The record in the
  metadata store holds the key itself: the store contains nothing but its former records
  and the record with the raw key, and the bucket holds that key.
\<close>

theorem handlerUploadVideo_signed_view:
  assumes "handlerUploadVideo rt cfg req w = (Inr resp, w')"
  shows "\<exists>videoId video key.
      params_videoId req = Some videoId \<and> getVideo (db w) videoId = Some video
    \<and> key \<noteq> []
    \<and> status resp = 200
    \<and> body resp = video\<lparr>videoURL := Some (presign rt key 3600)\<rparr>
    \<and> generatePresignedURL rt key None = presign rt key 3600
    \<and> getVideo (db w') videoId = Some (video\<lparr>videoURL := Some key\<rparr>)
    \<and> set (db w') \<subseteq> set (db w) \<union> {video\<lparr>videoURL := Some key\<rparr>}
    \<and> s3 w' key \<noteq> None"
proof -
  define fileName where "fileName = base64url (randomBytes rt 32) @ ''.mp4''"
  from handlerUploadVideo_success [OF assms] obtain videoId video cls fs localFile
    where a: "params_videoId req = Some videoId" "getVideo (db w) videoId = Some video"
    and e: "w' = \<lparr>db = updateVideo (db w) (video\<lparr>videoURL := Some (cls @ ''/'' @ fileName)\<rparr>),
                  files = fs, s3 = (s3 w)(cls @ ''/'' @ fileName \<mapsto> localFile)\<rparr>"
    and r: "resp = respondWithJSON 200
              (dbVideoToSignedVideo rt (video\<lparr>videoURL := Some (cls @ ''/'' @ fileName)\<rparr>))"
    unfolding Let_def fileName_def by blast
  have stored: "getVideo (db w') videoId = Some (video\<lparr>videoURL := Some (cls @ ''/'' @ fileName)\<rparr>)"
    unfolding e using getVideo_updateVideo [OF a(2)] getVideo_id [OF a(2)] by simp
  have sub: "set (db w') \<subseteq> set (db w) \<union> {video\<lparr>videoURL := Some (cls @ ''/'' @ fileName)\<rparr>}"
    unfolding e using set_updateVideo [of "db w"] by simp
  show ?thesis
    apply (rule exI [of _ videoId], rule exI [of _ video], rule exI [of _ "cls @ ''/'' @ fileName"])
    using a stored sub
    by (simp add: r e respondWithJSON_def dbVideoToSignedVideo_def generatePresignedURL_def)
qed

theorem handlerUploadVideo_signed_view_witness:
  "fst (handlerUploadVideo rt_ex cfg_ex req_ex world_ex)
     = Inr \<lparr>status = 200,
            body = video_ex\<lparr>videoURL := Some ''https://bucket.example/landscape/AwoRGB8mLTQ7QklQV15lbHN6gYiPlp2kq7K5wMfO1dw.mp4?X-Amz-Signature=0a1b''\<rparr>\<rparr>
   \<and> map videoURL (db (snd (handlerUploadVideo rt_ex cfg_ex req_ex world_ex)))
     = [Some ''landscape/AwoRGB8mLTQ7QklQV15lbHN6gYiPlp2kq7K5wMfO1dw.mp4'']"
  using handlerUploadVideo_signed_view [OF upload_ex]
  by (auto simp: upload_ex)



section \<open>A failing remux\<close>

lemma rt_remux_fails_simps [simp]:
  "getBearerToken rt_remux_fails = getBearerToken rt_ex"
  "validateJWT rt_remux_fails = validateJWT rt_ex"
  "randomSource rt_remux_fails = randomSource rt_ex"
  "path_join rt_remux_fails = path_join rt_ex"
  "ffprobe rt_remux_fails = ffprobe rt_ex"
  "JSON_parse rt_remux_fails = JSON_parse rt_ex"
  "ffmpeg rt_remux_fails cmd fs =
     (\<lparr>exited = 1, stdout = [], stderr = ''moov atom not found''\<rparr>, None)"
  by (simp_all add: rt_remux_fails_def)

lemma randomBytes_cong: "randomSource rt = randomSource rt' \<Longrightarrow> randomBytes rt n = randomBytes rt' n"
  by (simp add: randomBytes_def)

lemma getVideoAspectRatio_remux_fails:
  "getVideoAspectRatio rt_remux_fails fs p = Inr ''landscape''"
  using getVideoAspectRatio_ex [of fs p] by (simp add: getVideoAspectRatio_def)

lemma processVideoForFastStart_fails:
  assumes "exited (fst (ffmpeg rt (ffmpeg_cmd p (p @ ''.processed'')) fs)) \<noteq> 0"
  shows "processVideoForFastStart rt fs p =
           (Inl (Error (''Failed to process video for fast start '' @ p @ '': '' @ [CHR 0x0A]
                        @ stderr (fst (ffmpeg rt (ffmpeg_cmd p (p @ ''.processed'')) fs)))),
            (case snd (ffmpeg rt (ffmpeg_cmd p (p @ ''.processed'')) fs) of
               None \<Rightarrow> fs | Some out \<Rightarrow> fs(p @ ''.processed'' \<mapsto> out)))"
  using assms
  by (cases "ffmpeg rt (ffmpeg_cmd p (p @ ''.processed'')) fs")
    (simp add: processVideoForFastStart_def Let_def)

text \<open>
  C4, as stated, fails: no cleanup runs when the remux fails.  In the example deployment
  with a remux that exits with 1, the handler fails with the Error that carries the
  diagnostic stream, and the staged file is still in local storage, with the payload.
\<close>

theorem staged_file_kept_counterexample:
  "fst (handlerUploadVideo rt_remux_fails cfg_ex req_ex world_ex)
     = Inl (Error (''Failed to process video for fast start ''
                   @ ''/tmp/assets/AwoRGB8mLTQ7QklQV15lbHN6gYiPlp2kq7K5wMfO1dw.mp4'' @ '': ''
                   @ [CHR 0x0A] @ ''moov atom not found''))
   \<and> files (snd (handlerUploadVideo rt_remux_fails cfg_ex req_ex world_ex))
       ''/tmp/assets/AwoRGB8mLTQ7QklQV15lbHN6gYiPlp2kq7K5wMfO1dw.mp4'' = Some [1, 2, 3]"
  by (simp add: handlerUploadVideo_def MAX_UPLOAD_SIZE_val getVideo_def template_def at_last_def
      randomBytes_cong [of rt_remux_fails rt_ex] name_ex getVideoAspectRatio_remux_fails
      processVideoForFastStart_def Let_def)

text \<open>
  C4, amended.  When the checks pass, the probe gives a class and the remux exits
  non-zero, the handler fails with the Error (the spec's ProcessingError) whose message
  ends in the diagnostic stream of the process; the metadata store and the bucket are as
  before; and the staged file is not deleted: it stays in local storage with the payload.
\<close>

theorem remux_failure_keeps_staged_file:
  fixes rt cfg req w videoData
  defines "targetPath \<equiv> path_join rt (assetsRoot cfg) (base64url (randomBytes rt 32) @ ''.mp4'')"
  defines "fs1 \<equiv> (files w)(targetPath \<mapsto> arrayBuffer videoData)"
  defines "remux \<equiv> fst (ffmpeg rt (ffmpeg_cmd targetPath (targetPath @ ''.processed'')) fs1)"
  assumes "params_videoId req = Some videoId" and "videoId \<noteq> []"
    and "getBearerToken rt (headers req) = Inr token"
    and "validateJWT rt token (jwtSecret cfg) = Inr uid"
    and "formData req = Inr form"
    and "form ''video'' = Some (FormFile videoData)"
    and "size_File videoData \<le> 2 ^ 30"
    and "getVideo (db w) videoId = Some video"
    and "userID video = uid"
    and "type_File videoData = ''video/mp4''"
    and "getVideoAspectRatio rt fs1 targetPath = Inr cls"
    and "exited remux \<noteq> 0"
  shows "fst (handlerUploadVideo rt cfg req w)
           = Inl (Error (''Failed to process video for fast start '' @ targetPath @ '': ''
                         @ [CHR 0x0A] @ stderr remux))
       \<and> db (snd (handlerUploadVideo rt cfg req w)) = db w
       \<and> s3 (snd (handlerUploadVideo rt cfg req w)) = s3 w
       \<and> files (snd (handlerUploadVideo rt cfg req w)) targetPath = Some (arrayBuffer videoData)"
proof -
  have run: "handlerUploadVideo rt cfg req w =
      (Inl (Error (''Failed to process video for fast start '' @ targetPath @ '': ''
                   @ [CHR 0x0A] @ stderr remux)),
       w\<lparr>files := (case snd (ffmpeg rt (ffmpeg_cmd targetPath (targetPath @ ''.processed'')) fs1) of
                      None \<Rightarrow> fs1 | Some out \<Rightarrow> fs1(targetPath @ ''.processed'' \<mapsto> out))\<rparr>)"
    using assms(4-14) processVideoForFastStart_fails [OF assms(15) [unfolded remux_def]]
    unfolding remux_def fs1_def targetPath_def
    by (simp add: handlerUploadVideo_def MAX_UPLOAD_SIZE_val template_def at_last_def Let_def)
  show ?thesis
    unfolding run by (simp add: fs1_def split: option.splits)
qed

theorem remux_failure_keeps_staged_file_witness:
  "fst (handlerUploadVideo rt_remux_fails cfg_ex req_ex world_ex)
     = Inl (Error (''Failed to process video for fast start ''
                   @ ''/tmp/assets/AwoRGB8mLTQ7QklQV15lbHN6gYiPlp2kq7K5wMfO1dw.mp4'' @ '': ''
                   @ [CHR 0x0A] @ ''moov atom not found''))
   \<and> db (snd (handlerUploadVideo rt_remux_fails cfg_ex req_ex world_ex)) = [video_ex]
   \<and> s3 (snd (handlerUploadVideo rt_remux_fails cfg_ex req_ex world_ex)) = Map.empty
   \<and> files (snd (handlerUploadVideo rt_remux_fails cfg_ex req_ex world_ex))
       ''/tmp/assets/AwoRGB8mLTQ7QklQV15lbHN6gYiPlp2kq7K5wMfO1dw.mp4'' = Some [1, 2, 3]"
  using remux_failure_keeps_staged_file [of req_ex "''v1''" rt_remux_fails "''token-alice''" cfg_ex
      "''alice''" "[''video'' \<mapsto> FormFile file_ex]" file_ex world_ex video_ex "''landscape''"]
  by (simp add: getVideo_def randomBytes_cong [of rt_remux_fails rt_ex] name_ex
      getVideoAspectRatio_remux_fails)

section \<open>The staged file and the optimizer's output\<close>















end
